theory Spec2Isabelle
  imports Main "HOL-Library.Word"
begin

section \<open>Values and rule nodes\<close>

text \<open>
  The module \<^verbatim>\<open>pynspect/filters.py\<close> holds the record evaluator
  \<^verbatim>\<open>DataObjectFilter\<close>, the compiler \<^verbatim>\<open>IDEAFilterCompiler\<close> and the coercion
  helpers of the compiler. Exceptions are values of the type \<open>error\<close>, and a function
  that can raise returns \<open>error + 'a\<close>. Strings are Isabelle strings: characters are
  the code points 0 to 255.
\<close>

datatype error =
    TypeError string
  | ValueError string
  | AttributeError string
  | OverflowError string
  | OtherError string

text \<open>
  \<^verbatim>\<open>ipranges.Range\<close> objects are opaque to this module, which only asks
  \<^verbatim>\<open>isinstance(value, ipranges.Range)\<close>: a family tag and the two bounds.
\<close>

datatype iprange = IP4 int int | IP6 int int

text \<open>
  A naive \<^verbatim>\<open>datetime.datetime\<close>, held as the proleptic Gregorian ordinal of its day
  (1 is 0001-01-01), the second of the day and the microsecond. Valid field tuples and
  such triples correspond one to one, so equality of instants is equality of triples.
\<close>

datatype datetime = Datetime (dt_ordinal: int) (dt_second: int) (dt_microsecond: int)

text \<open>
  Modelled from the spec: the node classes of \<^verbatim>\<open>pynspect.rules\<close>, which the module
  imports (lines 67 and 68) and which are declared outside it. By section 3 of the
  specification a rule node is a tagged union and pure data: a literal holds one value, a
  variable reference holds its path, a list literal holds an ordered sequence of nodes,
  and an operation node holds an operation tag and its operand nodes. A constructor
  stores its arguments. Integer and float literals are the number literals;
  \<^verbatim>\<open>IPListRule\<close> is declared in the module (line 236) as a subclass of
  \<^verbatim>\<open>ListRule\<close>.

  Python values are dynamically typed, so the \<^verbatim>\<open>value\<close> field of a literal is a
  tagged union of the values the code tells apart. \<^verbatim>\<open>VFloat\<close> holds the bits of an
  IEEE double, \<^verbatim>\<open>VList\<close> is a Python \<^verbatim>\<open>list\<close>, \<^verbatim>\<open>VListIP\<close> the
  \<^verbatim>\<open>ListIP\<close> sequence of \<^verbatim>\<open>pynspect.traversers\<close>, and \<^verbatim>\<open>VRule\<close> a rule
  node met as a value (the items of a list node are its \<^verbatim>\<open>value\<close>).
\<close>

datatype pyval =
    VNone
  | VBool bool
  | VInt int
  | VFloat "64 word"
  | VStr string
  | VRange iprange
  | VDatetime datetime
  | VList "pyval list"
  | VListIP "pyval list"
  | VRule rule
and rule =
    ConstantRule pyval
  | IPV4Rule pyval
  | IPV6Rule pyval
  | DatetimeRule pyval
  | IntegerRule pyval
  | FloatRule pyval
  | VariableRule string
  | ListRule "rule list"
  | IPListRule "rule list"
  | LogicalBinOpRule string rule rule
  | ComparisonBinOpRule string rule rule
  | MathBinOpRule string rule rule
  | UnaryOperationRule string rule

text \<open>The \<^verbatim>\<open>isinstance\<close> tests of the module on rule nodes.\<close>

fun is_VariableRule :: "rule \<Rightarrow> bool" where
  "is_VariableRule (VariableRule p) = True"
| "is_VariableRule r = False"

fun is_ListRule :: "rule \<Rightarrow> bool" where
  "is_ListRule (ListRule items) = True"
| "is_ListRule (IPListRule items) = True"
| "is_ListRule r = False"

fun is_IntegerRule :: "rule \<Rightarrow> bool" where
  "is_IntegerRule (IntegerRule v) = True"
| "is_IntegerRule r = False"

fun is_NumberRule :: "rule \<Rightarrow> bool" where
  "is_NumberRule (IntegerRule v) = True"
| "is_NumberRule (FloatRule v) = True"
| "is_NumberRule r = False"

text \<open>
  Reading \<^verbatim>\<open>rule.value\<close>. A list node holds the Python list of its item nodes; an
  operation node has \<^verbatim>\<open>operation\<close> and operands but no \<^verbatim>\<open>value\<close>, so the read
  raises \<^verbatim>\<open>AttributeError\<close>.
\<close>

fun value_attr :: "rule \<Rightarrow> error + pyval" where
  "value_attr (ConstantRule v) = Inr v"
| "value_attr (IPV4Rule v) = Inr v"
| "value_attr (IPV6Rule v) = Inr v"
| "value_attr (DatetimeRule v) = Inr v"
| "value_attr (IntegerRule v) = Inr v"
| "value_attr (FloatRule v) = Inr v"
| "value_attr (VariableRule p) = Inr (VStr p)"
| "value_attr (ListRule items) = Inr (VList (map VRule items))"
| "value_attr (IPListRule items) = Inr (VList (map VRule items))"
| "value_attr r = Inl (AttributeError ''value'')"

text \<open>
  What the module takes from outside: the \<^verbatim>\<open>ipranges\<close> parsers, the conversion
  \<^verbatim>\<open>datetime.fromtimestamp(float(v))\<close> (local time zone, floating point), the
  \<^verbatim>\<open>evaluate_...\<close> methods inherited from \<^verbatim>\<open>FilteringTreeTraverser\<close>, and
  \<^verbatim>\<open>int\<close> and \<^verbatim>\<open>str\<close> on objects whose classes are defined elsewhere.
\<close>

record ext =
  from_str_v4 :: "pyval \<Rightarrow> error + iprange"
  from_str_v6 :: "pyval \<Rightarrow> error + iprange"
  fromtimestamp_float :: "pyval \<Rightarrow> error + datetime"
  evaluate_binop_math :: "string \<Rightarrow> pyval \<Rightarrow> pyval \<Rightarrow> error + pyval"
  evaluate_binop_logical :: "string \<Rightarrow> pyval \<Rightarrow> pyval \<Rightarrow> error + pyval"
  evaluate_binop_comparison :: "string \<Rightarrow> pyval \<Rightarrow> pyval \<Rightarrow> error + pyval"
  evaluate_unop :: "string \<Rightarrow> pyval \<Rightarrow> error + pyval"
  int_ext :: "pyval \<Rightarrow> error + int"
  str_ext :: "pyval \<Rightarrow> string"

section \<open>Python built-ins used by the module\<close>

definition is_digit :: "char \<Rightarrow> bool" where
  "is_digit c = (c \<in> set ''0123456789'')"

definition digit_val :: "char \<Rightarrow> int" where
  "digit_val c = of_char c - 48"

text \<open>
  White space as \<^verbatim>\<open>int\<close> and \<^verbatim>\<open>float\<close> strip it from a \<^verbatim>\<open>str\<close>: the
  code points 9 to 13, 32, 133 and 160.
\<close>

definition is_space :: "char \<Rightarrow> bool" where
  "is_space c = (let n = (of_char c :: nat) in
     (9 \<le> n \<and> n \<le> 13) \<or> n = 32 \<or> n = 133 \<or> n = 160)"

definition strip :: "string \<Rightarrow> string" where
  "strip s = rev (dropWhile is_space (rev (dropWhile is_space s)))"

text \<open>
  \<^verbatim>\<open>digitpart ::= digit (["_"] digit)*\<close> of the Python grammar. \<open>digitpart_tail\<close>
  consumes the starred group and returns the digits read and what is left.
\<close>

fun digitpart_tail :: "string \<Rightarrow> string \<times> string" where
  "digitpart_tail [] = ([], [])"
| "digitpart_tail [c] = (if is_digit c then ([c], []) else ([], [c]))"
| "digitpart_tail (c # d # cs) =
     (if is_digit c then (case digitpart_tail (d # cs) of (ds, r) \<Rightarrow> (c # ds, r))
      else if c = CHR ''_'' \<and> is_digit d then (case digitpart_tail cs of (ds, r) \<Rightarrow> (d # ds, r))
      else ([], c # d # cs))"

definition digitpart :: "string \<Rightarrow> (string \<times> string) option" where
  "digitpart s = (case s of [] \<Rightarrow> None
     | c # cs \<Rightarrow> if is_digit c then (case digitpart_tail cs of (ds, r) \<Rightarrow> Some (c # ds, r))
                else None)"

definition decimal :: "string \<Rightarrow> int" where
  "decimal ds = foldl (\<lambda>acc c. 10 * acc + digit_val c) 0 ds"

text \<open>\<^verbatim>\<open>int(s)\<close> for a string, base 10: stripped, an optional sign, one digitpart.\<close>

definition int_of_digits :: "string \<Rightarrow> error + int" where
  "int_of_digits s = (case digitpart s of
       Some (ds, []) \<Rightarrow> Inr (decimal ds)
     | _ \<Rightarrow> Inl (ValueError ''invalid literal for int() with base 10''))"

definition py_int_str :: "string \<Rightarrow> error + int" where
  "py_int_str s = (case strip s of
       [] \<Rightarrow> Inl (ValueError ''invalid literal for int() with base 10'')
     | c # cs \<Rightarrow>
         if c = CHR ''-'' then map_sum id uminus (int_of_digits cs)
         else if c = CHR ''+'' then int_of_digits cs
         else int_of_digits (c # cs))"

text \<open>
  \<^verbatim>\<open>int(x)\<close> for a float truncates toward zero. The double is read from its bits:
  sign, 11 exponent bits, 52 fraction bits.
\<close>

definition py_int_float :: "64 word \<Rightarrow> error + int" where
  "py_int_float w = (let n = unat w; e = (n div 2 ^ 52) mod 2048; m = n mod 2 ^ 52 in
     if e = 2047 then
       (if m = 0 then Inl (OverflowError ''cannot convert float infinity to integer'')
        else Inl (ValueError ''cannot convert float NaN to integer''))
     else
       (let mag = (if e = 0 then 0
                   else if 1075 \<le> e then (2 ^ 52 + m) * 2 ^ (e - 1075)
                   else (2 ^ 52 + m) div 2 ^ (1075 - e))
        in Inr (if n div 2 ^ 63 = 1 then - int mag else int mag)))"

fun py_int :: "ext \<Rightarrow> pyval \<Rightarrow> error + int" where
  "py_int X (VInt n) = Inr n"
| "py_int X (VBool b) = Inr (if b then 1 else 0)"
| "py_int X (VFloat w) = py_int_float w"
| "py_int X (VStr s) = py_int_str s"
| "py_int X VNone = Inl (TypeError ''int() argument'')"
| "py_int X (VList vs) = Inl (TypeError ''int() argument'')"
| "py_int X (VDatetime d) = Inl (TypeError ''int() argument'')"
| "py_int X v = int_ext X v"

text \<open>
  Whether \<^verbatim>\<open>float(s)\<close> accepts a string: stripped, an optional sign, then
  \<^verbatim>\<open>inf\<close>, \<^verbatim>\<open>infinity\<close> or \<^verbatim>\<open>nan\<close> in any case, or
  \<^verbatim>\<open>floatnumber ::= number [exponent]\<close> with
  \<^verbatim>\<open>number ::= [digitpart] "." digitpart | digitpart ["."]\<close> and
  \<^verbatim>\<open>exponent ::= ("e" | "E") [sign] digitpart\<close>.
\<close>

definition lower :: "char \<Rightarrow> char" where
  "lower c = (let n = (of_char c :: nat) in if 65 \<le> n \<and> n \<le> 90 then char_of (n + 32) else c)"

definition drop_sign :: "string \<Rightarrow> string" where
  "drop_sign s = (case s of [] \<Rightarrow> []
     | c # cs \<Rightarrow> if c = CHR ''+'' \<or> c = CHR ''-'' then cs else c # cs)"

definition number :: "string \<Rightarrow> string option" where
  "number s = (case digitpart s of
       Some (ds, r) \<Rightarrow>
         (case r of
            [] \<Rightarrow> Some []
          | c # cs \<Rightarrow>
              if c = CHR ''.'' then
                (case digitpart cs of Some (fs, r') \<Rightarrow> Some r' | None \<Rightarrow> Some cs)
              else Some r)
     | None \<Rightarrow>
         (case s of
            [] \<Rightarrow> None
          | c # cs \<Rightarrow>
              if c = CHR ''.'' then
                (case digitpart cs of Some (fs, r') \<Rightarrow> Some r' | None \<Rightarrow> None)
              else None))"

definition exponent :: "string \<Rightarrow> bool" where
  "exponent s = (case s of [] \<Rightarrow> False
     | c # cs \<Rightarrow> (c = CHR ''e'' \<or> c = CHR ''E'') \<and>
         (case digitpart (drop_sign cs) of Some (ds, r) \<Rightarrow> r = [] | None \<Rightarrow> False))"

definition is_float_literal :: "string \<Rightarrow> bool" where
  "is_float_literal s = (let u = drop_sign (strip s) in
     map lower u \<in> set [''inf'', ''infinity'', ''nan''] \<or>
     (case number u of None \<Rightarrow> False | Some r \<Rightarrow> r = [] \<or> exponent r))"

text \<open>\<^verbatim>\<open>str(v)\<close>: the decimal digits of an integer, the names of the constants.\<close>

fun digits_of :: "nat \<Rightarrow> string" where
  "digits_of n = (if n < 10 then [char_of (48 + n)]
                  else digits_of (n div 10) @ [char_of (48 + n mod 10)])"

declare digits_of.simps [simp del]

fun py_str :: "ext \<Rightarrow> pyval \<Rightarrow> string" where
  "py_str X (VStr s) = s"
| "py_str X (VInt n) = (if n < 0 then CHR ''-'' # digits_of (nat (- n)) else digits_of (nat n))"
| "py_str X (VBool b) = (if b then ''True'' else ''False'')"
| "py_str X VNone = ''None''"
| "py_str X (VList vs) = CHR ''['' # str_ext X (VList vs)"
| "py_str X v = str_ext X v"

section \<open>Naive datetimes\<close>

text \<open>
  The constructor \<^verbatim>\<open>datetime.datetime(year, month, day, hour, minute, second, us)\<close>
  checks every field and raises \<^verbatim>\<open>ValueError\<close>; subtracting a
  \<^verbatim>\<open>timedelta(minutes = n)\<close> raises \<^verbatim>\<open>OverflowError\<close> when the day leaves the
  years 1 to 9999.
\<close>

definition is_leap :: "int \<Rightarrow> bool" where
  "is_leap y = (y mod 4 = 0 \<and> (y mod 100 \<noteq> 0 \<or> y mod 400 = 0))"

definition days_in_month :: "int \<Rightarrow> int \<Rightarrow> int" where
  "days_in_month y m = (if m = 2 \<and> is_leap y then 29
     else [31, 28, 31, 30, 31, 30, 31, 31, 30, 31, 30, 31] ! nat (m - 1))"

definition days_before_year :: "int \<Rightarrow> int" where
  "days_before_year y = (let p = y - 1 in p * 365 + p div 4 - p div 100 + p div 400)"

definition days_before_month :: "int \<Rightarrow> int \<Rightarrow> int" where
  "days_before_month y m =
     [0, 31, 59, 90, 120, 151, 181, 212, 243, 273, 304, 334] ! nat (m - 1)
       + (if 2 < m \<and> is_leap y then 1 else 0)"

definition ymd2ord :: "int \<Rightarrow> int \<Rightarrow> int \<Rightarrow> int" where
  "ymd2ord y m d = days_before_year y + days_before_month y m + d"

definition datetime_new ::
  "int \<Rightarrow> int \<Rightarrow> int \<Rightarrow> int \<Rightarrow> int \<Rightarrow> int \<Rightarrow> int \<Rightarrow> error + datetime" where
  "datetime_new y m d hh mi ss us =
     (if \<not> (1 \<le> y \<and> y \<le> 9999) then Inl (ValueError ''year is out of range'')
      else if \<not> (1 \<le> m \<and> m \<le> 12) then Inl (ValueError ''month must be in 1..12'')
      else if \<not> (1 \<le> d \<and> d \<le> days_in_month y m) then
        Inl (ValueError ''day is out of range for month'')
      else if \<not> (0 \<le> hh \<and> hh \<le> 23) then Inl (ValueError ''hour must be in 0..23'')
      else if \<not> (0 \<le> mi \<and> mi \<le> 59) then Inl (ValueError ''minute must be in 0..59'')
      else if \<not> (0 \<le> ss \<and> ss \<le> 59) then Inl (ValueError ''second must be in 0..59'')
      else if \<not> (0 \<le> us \<and> us \<le> 999999) then
        Inl (ValueError ''microsecond must be in 0..999999'')
      else Inr (Datetime (ymd2ord y m d) (hh * 3600 + mi * 60 + ss) us))"

definition datetime_minus_minutes :: "datetime \<Rightarrow> int \<Rightarrow> error + datetime" where
  "datetime_minus_minutes dt n =
     (let total = dt_ordinal dt * 86400 + dt_second dt - n * 60;
          days = total div 86400
      in if 0 < days \<and> days \<le> 3652059
         then Inr (Datetime days (total mod 86400) (dt_microsecond dt))
         else Inl (OverflowError ''date value out of range''))"

section \<open>The two regular expressions\<close>

text \<open>
  \<^verbatim>\<open>TIMESTAMP_RE\<close> (line 73), matched from the start of the string. The groups are
  year, month, day, hour, minute, second, the optional fraction digits and the zone.
  \<^verbatim>\<open>$\<close> matches at the end and before one final newline.
\<close>

definition take_digits :: "nat \<Rightarrow> string \<Rightarrow> (string \<times> string) option" where
  "take_digits n s = (if n \<le> length s \<and> list_all is_digit (take n s)
                      then Some (take n s, drop n s) else None)"

definition expect :: "char list \<Rightarrow> string \<Rightarrow> string option" where
  "expect cs s = (case s of [] \<Rightarrow> None | c # r \<Rightarrow> if c \<in> set cs then Some r else None)"

definition match_fraction :: "string \<Rightarrow> string option \<times> string" where
  "match_fraction s = (case s of
       c # r \<Rightarrow> if c = CHR ''.'' \<and> takeWhile is_digit r \<noteq> []
                then (Some (takeWhile is_digit r), dropWhile is_digit r)
                else (None, s)
     | [] \<Rightarrow> (None, s))"

definition match_zone :: "string \<Rightarrow> (string \<times> string) option" where
  "match_zone s = (case s of
       [] \<Rightarrow> None
     | c # r \<Rightarrow>
         if c \<in> set ''Zz'' then Some ([c], r)
         else if c \<in> set ''+-'' then
           (case take_digits 2 r of
              None \<Rightarrow> None
            | Some (hh, r1) \<Rightarrow>
                (case expect '':'' r1 of
                   None \<Rightarrow> None
                 | Some r2 \<Rightarrow>
                     (case take_digits 2 r2 of
                        None \<Rightarrow> None
                      | Some (mm, r3) \<Rightarrow> Some (c # hh @ '':'' @ mm, r3))))
         else None)"

record timestamp_groups =
  g_year :: string
  g_month :: string
  g_day :: string
  g_hour :: string
  g_minute :: string
  g_second :: string
  g_fraction :: "string option"
  g_zone :: string

definition TIMESTAMP_RE_match :: "string \<Rightarrow> timestamp_groups option" where
  "TIMESTAMP_RE_match s =
     Option.bind (take_digits 4 s) (\<lambda>(y, s1).
     Option.bind (expect ''-'' s1) (\<lambda>s2.
     Option.bind (take_digits 2 s2) (\<lambda>(mo, s3).
     Option.bind (expect ''-'' s3) (\<lambda>s4.
     Option.bind (take_digits 2 s4) (\<lambda>(d, s5).
     Option.bind (expect ''Tt'' s5) (\<lambda>s6.
     Option.bind (take_digits 2 s6) (\<lambda>(hh, s7).
     Option.bind (expect '':'' s7) (\<lambda>s8.
     Option.bind (take_digits 2 s8) (\<lambda>(mi, s9).
     Option.bind (expect '':'' s9) (\<lambda>s10.
     Option.bind (take_digits 2 s10) (\<lambda>(ss, s11).
     (case match_fraction s11 of (fr, s12) \<Rightarrow>
     Option.bind (match_zone s12) (\<lambda>(z, s13).
       if s13 = [] \<or> s13 = [CHR 0x0A]
       then Some \<lparr>g_year = y, g_month = mo, g_day = d, g_hour = hh, g_minute = mi,
                  g_second = ss, g_fraction = fr, g_zone = z\<rparr>
       else None)))))))))))))"

text \<open>
  \<^verbatim>\<open>CVRE.sub('', var)\<close> with \<^verbatim>\<open>CVRE = \[\d+\]\<close> (lines 224 to 233): scanning from
  the left, an opening bracket followed by one or more digits and a closing bracket is
  dropped, and the scan goes on behind it; any other character is kept. Among the code
  points 0 to 255 the digits of \<^verbatim>\<open>\d\<close> are the ten ASCII digits.
\<close>

function clean_variable :: "string \<Rightarrow> string" where
  "clean_variable [] = []"
| "clean_variable (c # cs) =
     (if c = CHR ''['' \<and> takeWhile is_digit cs \<noteq> [] \<and>
         (case dropWhile is_digit cs of [] \<Rightarrow> False | d # r \<Rightarrow> d = CHR '']'')
      then clean_variable (tl (dropWhile is_digit cs))
      else c # clean_variable cs)"
  by pat_completeness auto
termination
proof (relation "measure length")
  fix c :: char and cs :: string
  have "length (dropWhile is_digit cs) \<le> length cs"
    by (rule length_dropWhile_le)
  then have "length (tl (dropWhile is_digit cs)) \<le> length cs"
    by simp
  then show "(tl (dropWhile is_digit cs), c # cs) \<in> measure length"
    by simp
qed simp_all

section \<open>Value coercion helpers\<close>

definition ebind :: "error + 'a \<Rightarrow> ('a \<Rightarrow> error + 'b) \<Rightarrow> error + 'b" where
  "ebind m f = (case m of Inl e \<Rightarrow> Inl e | Inr x \<Rightarrow> f x)"

fun map_err :: "('a \<Rightarrow> error + 'b) \<Rightarrow> 'a list \<Rightarrow> error + 'b list" where
  "map_err f [] = Inr []"
| "map_err f (x # xs) =
     (case f x of Inl e \<Rightarrow> Inl e
      | Inr y \<Rightarrow> (case map_err f xs of Inl e \<Rightarrow> Inl e | Inr ys \<Rightarrow> Inr (y # ys)))"

fun is_Range :: "pyval \<Rightarrow> bool" where
  "is_Range (VRange g) = True"
| "is_Range v = False"

fun is_datetime :: "pyval \<Rightarrow> bool" where
  "is_datetime (VDatetime d) = True"
| "is_datetime v = False"

text \<open>\<^verbatim>\<open>compile_ip_v4\<close> and \<^verbatim>\<open>compile_ip_v6\<close> (lines 177 to 195).\<close>

definition compile_ip_v4 :: "ext \<Rightarrow> rule \<Rightarrow> error + rule" where
  "compile_ip_v4 X rule = ebind (value_attr rule) (\<lambda>v.
     if is_Range v then Inr rule
     else ebind (from_str_v4 X v) (\<lambda>g. Inr (IPV4Rule (VRange g))))"

definition compile_ip_v6 :: "ext \<Rightarrow> rule \<Rightarrow> error + rule" where
  "compile_ip_v6 X rule = ebind (value_attr rule) (\<lambda>v.
     if is_Range v then Inr rule
     else ebind (from_str_v6 X v) (\<lambda>g. Inr (IPV6Rule (VRange g))))"

text \<open>
  \<^verbatim>\<open>datetime.datetime.fromtimestamp(float(rule.value))\<close> (line 207). \<^verbatim>\<open>float\<close>
  raises \<^verbatim>\<open>ValueError\<close> on a string that is no float literal and \<^verbatim>\<open>TypeError\<close>
  on \<^verbatim>\<open>None\<close> and on a list; what a successful conversion yields is external.
\<close>

fun try_numeric :: "ext \<Rightarrow> pyval \<Rightarrow> error + datetime" where
  "try_numeric X (VStr s) =
     (if is_float_literal s then fromtimestamp_float X (VStr s)
      else Inl (ValueError ''could not convert string to float''))"
| "try_numeric X VNone = Inl (TypeError ''float() argument'')"
| "try_numeric X (VList vs) = Inl (TypeError ''float() argument'')"
| "try_numeric X v = fromtimestamp_float X v"

text \<open>The clause \<^verbatim>\<open>except (TypeError, ValueError): pass\<close>.\<close>

fun caught :: "error \<Rightarrow> bool" where
  "caught (TypeError m) = True"
| "caught (ValueError m) = True"
| "caught e = False"

fun split_on :: "char \<Rightarrow> string \<Rightarrow> string list" where
  "split_on c [] = [[]]"
| "split_on c (x # xs) =
     (if x = c then [] # split_on c xs
      else (case split_on c xs of w # ws \<Rightarrow> (x # w) # ws | [] \<Rightarrow> [[x]]))"

text \<open>
  Lines 216 to 218: the zone is \<^verbatim>\<open>(0, 0)\<close> for \<^verbatim>\<open>Z\<close>, else the two integers
  around the colon, and the difference is \<^verbatim>\<open>zonespl[0]*60+zonespl[1]\<close> minutes.
\<close>

definition zone_minutes :: "string \<Rightarrow> error + int" where
  "zone_minutes zonestr =
     (if zonestr \<in> set [''z'', ''Z''] then Inr (0 * 60 + 0)
      else ebind (map_err py_int_str (split_on CHR '':'' zonestr)) (\<lambda>zonespl.
        case zonespl of
          h # m # rest \<Rightarrow> Inr (h * 60 + m)
        | _ \<Rightarrow> Inl (OtherError ''IndexError'')))"

text \<open>Line 214: \<^verbatim>\<open>(res.group(7) or "0")[:6].ljust(6, "0")\<close>.\<close>

definition us_str :: "string option \<Rightarrow> string" where
  "us_str fr = (let t = take 6 (case fr of None \<Rightarrow> ''0'' | Some f \<Rightarrow> f)
                in t @ replicate (6 - length t) CHR ''0'')"

definition timestamp_of_string :: "string \<Rightarrow> error + rule" where
  "timestamp_of_string s =
     (case TIMESTAMP_RE_match s of
        None \<Rightarrow> Inl (ValueError ''Wrong Timestamp'')
      | Some res \<Rightarrow>
          ebind (py_int_str (g_year res)) (\<lambda>year.
          ebind (py_int_str (g_month res)) (\<lambda>month.
          ebind (py_int_str (g_day res)) (\<lambda>day.
          ebind (py_int_str (g_hour res)) (\<lambda>hour.
          ebind (py_int_str (g_minute res)) (\<lambda>minute.
          ebind (py_int_str (g_second res)) (\<lambda>second.
          ebind (py_int_str (us_str (g_fraction res))) (\<lambda>us.
          ebind (zone_minutes (g_zone res)) (\<lambda>zonediff.
          ebind (datetime_new year month day hour minute second us) (\<lambda>dt.
          ebind (datetime_minus_minutes dt zonediff) (\<lambda>r.
            Inr (DatetimeRule (VDatetime r)))))))))))))"

text \<open>\<^verbatim>\<open>compile_datetime\<close> (lines 197 to 221).\<close>

definition compile_datetime :: "ext \<Rightarrow> rule \<Rightarrow> error + rule" where
  "compile_datetime X rule = ebind (value_attr rule) (\<lambda>v.
     if is_datetime v then Inr rule
     else (case try_numeric X v of
             Inr d \<Rightarrow> Inr (DatetimeRule (VDatetime d))
           | Inl e \<Rightarrow> if caught e then timestamp_of_string (py_str X v) else Inl e))"

section \<open>The coercion table\<close>

text \<open>
  \<^verbatim>\<open>COMPILATIONS_IDEA_OBJECT\<close> (lines 250 to 261) maps a canonical path to the
  coercion of one item, \<^verbatim>\<open>comp_i\<close>, and to the constructor of the coerced list,
  \<^verbatim>\<open>comp_l\<close>.
\<close>

datatype comp_i = Comp_datetime | Comp_ip_v4 | Comp_ip_v6

datatype comp_l = Make_ListRule | Make_IPListRule

definition COMPILATIONS_IDEA_OBJECT :: "string \<rightharpoonup> comp_i \<times> comp_l" where
  "COMPILATIONS_IDEA_OBJECT = map_of
     [(''CreateTime'', (Comp_datetime, Make_ListRule)),
      (''DetectTime'', (Comp_datetime, Make_ListRule)),
      (''EventTime'', (Comp_datetime, Make_ListRule)),
      (''CeaseTime'', (Comp_datetime, Make_ListRule)),
      (''WinStartTime'', (Comp_datetime, Make_ListRule)),
      (''WinEndTime'', (Comp_datetime, Make_ListRule)),
      (''Source.IP4'', (Comp_ip_v4, Make_IPListRule)),
      (''Target.IP4'', (Comp_ip_v4, Make_IPListRule)),
      (''Source.IP6'', (Comp_ip_v6, Make_IPListRule)),
      (''Target.IP6'', (Comp_ip_v6, Make_IPListRule))]"

fun apply_comp_i :: "ext \<Rightarrow> comp_i \<Rightarrow> rule \<Rightarrow> error + rule" where
  "apply_comp_i X Comp_datetime = compile_datetime X"
| "apply_comp_i X Comp_ip_v4 = compile_ip_v4 X"
| "apply_comp_i X Comp_ip_v6 = compile_ip_v6 X"

text \<open>The list constructor of an entry, applied to the list of coerced items (line 367).\<close>

fun apply_comp_l :: "comp_l \<Rightarrow> rule list \<Rightarrow> rule" where
  "apply_comp_l Make_ListRule = ListRule"
| "apply_comp_l Make_IPListRule = IPListRule"

section \<open>The compiler callbacks\<close>

text \<open>
  The callbacks of \<^verbatim>\<open>IDEAFilterCompiler\<close> (lines 295 to 392), one definition each.
  A leaf callback receives the node; an operation callback receives the operation tag
  of its node and the results of the operands.
\<close>

definition IDEAFilterCompiler_ipv4 :: "ext \<Rightarrow> rule \<Rightarrow> error + rule" where
  "IDEAFilterCompiler_ipv4 X rule = compile_ip_v4 X rule"

definition IDEAFilterCompiler_ipv6 :: "ext \<Rightarrow> rule \<Rightarrow> error + rule" where
  "IDEAFilterCompiler_ipv6 X rule = compile_ip_v4 X rule"

definition IDEAFilterCompiler_datetime :: "ext \<Rightarrow> rule \<Rightarrow> error + rule" where
  "IDEAFilterCompiler_datetime X rule = compile_datetime X rule"

text \<open>
  Lines 316 to 321 assign \<^verbatim>\<open>rule.value = int(rule.value)\<close> and return the same
  node. The argument here is the \<^verbatim>\<open>value\<close> field of the \<^verbatim>\<open>IntegerRule\<close> node
  being visited; the result is that node as it stands after the assignment.
\<close>

definition IDEAFilterCompiler_integer :: "ext \<Rightarrow> pyval \<Rightarrow> error + rule" where
  "IDEAFilterCompiler_integer X v = ebind (py_int X v) (\<lambda>n. Inr (IntegerRule (VInt n)))"

definition IDEAFilterCompiler_constant :: "rule \<Rightarrow> rule" where
  "IDEAFilterCompiler_constant rule = rule"

definition IDEAFilterCompiler_variable :: "rule \<Rightarrow> rule" where
  "IDEAFilterCompiler_variable rule = rule"

definition IDEAFilterCompiler_list :: "rule \<Rightarrow> rule" where
  "IDEAFilterCompiler_list rule = rule"

definition IDEAFilterCompiler_binary_operation_logical :: "string \<Rightarrow> rule \<Rightarrow> rule \<Rightarrow> rule" where
  "IDEAFilterCompiler_binary_operation_logical operation left right =
     LogicalBinOpRule operation left right"

fun list_items :: "rule \<Rightarrow> rule list" where
  "list_items (ListRule items) = items"
| "list_items (IPListRule items) = items"
| "list_items r = []"

text \<open>
  Lines 351 to 357 choose \<^verbatim>\<open>var\<close> and \<^verbatim>\<open>val\<close>; both stay \<^verbatim>\<open>None\<close> when both
  or neither operand is a variable. Rule objects are true in \<^verbatim>\<open>if var and val\<close>.
\<close>

definition var_and_val :: "rule \<Rightarrow> rule \<Rightarrow> (string \<times> rule) option" where
  "var_and_val left right =
     (case left of
        VariableRule p \<Rightarrow> if \<not> is_VariableRule right then Some (p, right) else None
      | _ \<Rightarrow> (case right of VariableRule p \<Rightarrow> Some (p, left) | _ \<Rightarrow> None))"

definition IDEAFilterCompiler_binary_operation_comparison ::
  "ext \<Rightarrow> string \<Rightarrow> rule \<Rightarrow> rule \<Rightarrow> error + rule" where
  "IDEAFilterCompiler_binary_operation_comparison X operation left right =
     (case var_and_val left right of
        None \<Rightarrow> Inr (ComparisonBinOpRule operation left right)
      | Some (var_value, val) \<Rightarrow>
          (case COMPILATIONS_IDEA_OBJECT (clean_variable var_value) of
             None \<Rightarrow> Inr (ComparisonBinOpRule operation left right)
           | Some (ci, cl) \<Rightarrow>
               if is_ListRule val then
                 ebind (map_err (apply_comp_i X ci) (list_items val)) (\<lambda>result.
                   Inr (ComparisonBinOpRule operation left (apply_comp_l cl result)))
               else
                 ebind (apply_comp_i X ci val) (\<lambda>right'.
                   Inr (ComparisonBinOpRule operation left right'))))"

text \<open>
  Lines 372 to 386. \<^verbatim>\<open>isinstance(result, list)\<close> holds for a Python list only.
\<close>

definition fold_result :: "(pyval \<Rightarrow> rule) \<Rightarrow> pyval \<Rightarrow> rule" where
  "fold_result mk result = (case result of VList rs \<Rightarrow> ListRule (map mk rs) | _ \<Rightarrow> mk result)"

definition IDEAFilterCompiler_binary_operation_math ::
  "ext \<Rightarrow> string \<Rightarrow> rule \<Rightarrow> rule \<Rightarrow> error + rule" where
  "IDEAFilterCompiler_binary_operation_math X operation left right =
     (if is_IntegerRule left \<and> is_IntegerRule right then
        ebind (value_attr left) (\<lambda>a. ebind (value_attr right) (\<lambda>b.
        ebind (evaluate_binop_math X operation a b) (\<lambda>result.
          Inr (fold_result IntegerRule result))))
      else if is_NumberRule left \<and> is_NumberRule right then
        ebind (value_attr left) (\<lambda>a. ebind (value_attr right) (\<lambda>b.
        ebind (evaluate_binop_math X operation a b) (\<lambda>result.
          Inr (fold_result FloatRule result))))
      else Inr (MathBinOpRule operation left right))"

definition IDEAFilterCompiler_unary_operation :: "string \<Rightarrow> rule \<Rightarrow> rule" where
  "IDEAFilterCompiler_unary_operation operation right = UnaryOperationRule operation right"

section \<open>Traversal\<close>

text \<open>
  Modelled from the spec: the method \<^verbatim>\<open>traverse\<close> of the node classes, which is in
  \<^verbatim>\<open>pynspect.rules\<close> and not in \<^verbatim>\<open>filters.py\<close>. By section 4.1 of the
  specification the walk is bottom-up: an operation node traverses its operands first,
  left to right, and then calls the callback of its kind with their results; a leaf calls
  its callback directly. The list callbacks of both traversers (lines 143 and 335) take
  the node alone, as the leaf callbacks do: the one of the evaluator reads the items from
  the node itself (lines 147 and 244), the one of the compiler returns the node (line
  339). So a list node calls its callback directly and its items are not walked, although
  sections 4.1 and 4.3 speak of list items being traversed and compiled. A float literal
  has no callback of its own in \<^verbatim>\<open>filters.py\<close> and goes to \<^verbatim>\<open>constant\<close>.

  The integer callback assigns to a field of the node it visits, so the walk returns two
  trees: the result, and the tree that was passed in as it stands after the walk. A
  callback that returns its node returns it in that later state. This is exact for a
  tree in which no node object occurs twice. When the walk raises, the exception alone
  is returned.
\<close>

fun traverse_compile :: "ext \<Rightarrow> rule \<Rightarrow> error + rule \<times> rule" where
  "traverse_compile X (ConstantRule v) =
     Inr (IDEAFilterCompiler_constant (ConstantRule v), ConstantRule v)"
| "traverse_compile X (FloatRule v) =
     Inr (IDEAFilterCompiler_constant (FloatRule v), FloatRule v)"
| "traverse_compile X (IPV4Rule v) =
     (case IDEAFilterCompiler_ipv4 X (IPV4Rule v) of
        Inl e \<Rightarrow> Inl e | Inr r \<Rightarrow> Inr (r, IPV4Rule v))"
| "traverse_compile X (IPV6Rule v) =
     (case IDEAFilterCompiler_ipv6 X (IPV6Rule v) of
        Inl e \<Rightarrow> Inl e | Inr r \<Rightarrow> Inr (r, IPV6Rule v))"
| "traverse_compile X (DatetimeRule v) =
     (case IDEAFilterCompiler_datetime X (DatetimeRule v) of
        Inl e \<Rightarrow> Inl e | Inr r \<Rightarrow> Inr (r, DatetimeRule v))"
| "traverse_compile X (IntegerRule v) =
     (case IDEAFilterCompiler_integer X v of
        Inl e \<Rightarrow> Inl e | Inr r \<Rightarrow> Inr (r, r))"
| "traverse_compile X (VariableRule p) =
     Inr (IDEAFilterCompiler_variable (VariableRule p), VariableRule p)"
| "traverse_compile X (ListRule items) =
     Inr (IDEAFilterCompiler_list (ListRule items), ListRule items)"
| "traverse_compile X (IPListRule items) =
     Inr (IDEAFilterCompiler_list (IPListRule items), IPListRule items)"
| "traverse_compile X (LogicalBinOpRule operation l r) =
     (case traverse_compile X l of
        Inl e \<Rightarrow> Inl e
      | Inr (left, l') \<Rightarrow>
          (case traverse_compile X r of
             Inl e \<Rightarrow> Inl e
           | Inr (right, r') \<Rightarrow>
               Inr (IDEAFilterCompiler_binary_operation_logical operation left right,
                    LogicalBinOpRule operation l' r')))"
| "traverse_compile X (ComparisonBinOpRule operation l r) =
     (case traverse_compile X l of
        Inl e \<Rightarrow> Inl e
      | Inr (left, l') \<Rightarrow>
          (case traverse_compile X r of
             Inl e \<Rightarrow> Inl e
           | Inr (right, r') \<Rightarrow>
               (case IDEAFilterCompiler_binary_operation_comparison X operation left right of
                  Inl e \<Rightarrow> Inl e
                | Inr res \<Rightarrow> Inr (res, ComparisonBinOpRule operation l' r'))))"
| "traverse_compile X (MathBinOpRule operation l r) =
     (case traverse_compile X l of
        Inl e \<Rightarrow> Inl e
      | Inr (left, l') \<Rightarrow>
          (case traverse_compile X r of
             Inl e \<Rightarrow> Inl e
           | Inr (right, r') \<Rightarrow>
               (case IDEAFilterCompiler_binary_operation_math X operation left right of
                  Inl e \<Rightarrow> Inl e
                | Inr res \<Rightarrow> Inr (res, MathBinOpRule operation l' r'))))"
| "traverse_compile X (UnaryOperationRule operation r) =
     (case traverse_compile X r of
        Inl e \<Rightarrow> Inl e
      | Inr (right, r') \<Rightarrow>
          Inr (IDEAFilterCompiler_unary_operation operation right,
               UnaryOperationRule operation r'))"

text \<open>\<^verbatim>\<open>IDEAFilterCompiler.compile\<close> (lines 280 to 289) returns the result of the walk.\<close>

definition compile :: "ext \<Rightarrow> rule \<Rightarrow> error + rule" where
  "compile X rule = map_sum id fst (traverse_compile X rule)"

text \<open>The tree that was given to \<^verbatim>\<open>compile\<close>, as the caller finds it afterwards.\<close>

definition input_after_compile :: "ext \<Rightarrow> rule \<Rightarrow> error + rule" where
  "input_after_compile X rule = map_sum id snd (traverse_compile X rule)"

section \<open>The record evaluator\<close>

text \<open>
  \<^verbatim>\<open>IPListRule.values\<close> (lines 243 and 244) wraps the \<^verbatim>\<open>value\<close> of every item in
  a \<^verbatim>\<open>ListIP\<close>.
\<close>

definition IPListRule_values :: "rule list \<Rightarrow> error + pyval" where
  "IPListRule_values items = ebind (map_err value_attr items) (\<lambda>vs. Inr (VListIP vs))"

text \<open>
  Modelled from the spec: \<^verbatim>\<open>ListRule.values\<close>, which is in \<^verbatim>\<open>pynspect.rules\<close>.
  By section 4.2 a list literal evaluates to the ordered sequence of the values of its
  items.
\<close>

definition ListRule_values :: "rule list \<Rightarrow> error + pyval" where
  "ListRule_values items = ebind (map_err value_attr items) (\<lambda>vs. Inr (VList vs))"

text \<open>
  The callbacks of \<^verbatim>\<open>DataObjectFilter\<close> (lines 107 to 171). The five literal
  callbacks return \<^verbatim>\<open>rule.value\<close>; \<^verbatim>\<open>jpath_values\<close> is external and is a
  parameter, as is the record \<open>obj\<close> it reads. The operation callbacks are the
  \<^verbatim>\<open>evaluate_...\<close> methods applied to the operation tag and the operand results.
\<close>

definition DataObjectFilter_ipv4 :: "rule \<Rightarrow> error + pyval" where
  "DataObjectFilter_ipv4 rule = value_attr rule"

definition DataObjectFilter_ipv6 :: "rule \<Rightarrow> error + pyval" where
  "DataObjectFilter_ipv6 rule = value_attr rule"

definition DataObjectFilter_datetime :: "rule \<Rightarrow> error + pyval" where
  "DataObjectFilter_datetime rule = value_attr rule"

definition DataObjectFilter_integer :: "rule \<Rightarrow> error + pyval" where
  "DataObjectFilter_integer rule = value_attr rule"

definition DataObjectFilter_constant :: "rule \<Rightarrow> error + pyval" where
  "DataObjectFilter_constant rule = value_attr rule"

definition DataObjectFilter_variable ::
  "('d \<Rightarrow> string \<Rightarrow> error + pyval) \<Rightarrow> 'd \<Rightarrow> string \<Rightarrow> error + pyval" where
  "DataObjectFilter_variable jpath_values obj path = jpath_values obj path"

fun DataObjectFilter_list :: "rule \<Rightarrow> error + pyval" where
  "DataObjectFilter_list (ListRule items) = ListRule_values items"
| "DataObjectFilter_list (IPListRule items) = IPListRule_values items"
| "DataObjectFilter_list r = Inl (AttributeError ''values'')"

text \<open>
  \<^verbatim>\<open>DataObjectFilter.filter\<close> (lines 94 to 103) is \<^verbatim>\<open>rule.traverse(self, obj = data)\<close>,
  the walk of the section above with these callbacks. Nothing is assigned, so the walk
  returns the result only.
\<close>

fun filter_rule :: "('d \<Rightarrow> string \<Rightarrow> error + pyval) \<Rightarrow> ext \<Rightarrow> 'd \<Rightarrow> rule \<Rightarrow> error + pyval"
where
  "filter_rule J X obj (ConstantRule v) = DataObjectFilter_constant (ConstantRule v)"
| "filter_rule J X obj (FloatRule v) = DataObjectFilter_constant (FloatRule v)"
| "filter_rule J X obj (IPV4Rule v) = DataObjectFilter_ipv4 (IPV4Rule v)"
| "filter_rule J X obj (IPV6Rule v) = DataObjectFilter_ipv6 (IPV6Rule v)"
| "filter_rule J X obj (DatetimeRule v) = DataObjectFilter_datetime (DatetimeRule v)"
| "filter_rule J X obj (IntegerRule v) = DataObjectFilter_integer (IntegerRule v)"
| "filter_rule J X obj (VariableRule p) = DataObjectFilter_variable J obj p"
| "filter_rule J X obj (ListRule items) = DataObjectFilter_list (ListRule items)"
| "filter_rule J X obj (IPListRule items) = DataObjectFilter_list (IPListRule items)"
| "filter_rule J X obj (LogicalBinOpRule operation l r) =
     (case filter_rule J X obj l of
        Inl e \<Rightarrow> Inl e
      | Inr left \<Rightarrow>
          (case filter_rule J X obj r of
             Inl e \<Rightarrow> Inl e
           | Inr right \<Rightarrow> evaluate_binop_logical X operation left right))"
| "filter_rule J X obj (ComparisonBinOpRule operation l r) =
     (case filter_rule J X obj l of
        Inl e \<Rightarrow> Inl e
      | Inr left \<Rightarrow>
          (case filter_rule J X obj r of
             Inl e \<Rightarrow> Inl e
           | Inr right \<Rightarrow> evaluate_binop_comparison X operation left right))"
| "filter_rule J X obj (MathBinOpRule operation l r) =
     (case filter_rule J X obj l of
        Inl e \<Rightarrow> Inl e
      | Inr left \<Rightarrow>
          (case filter_rule J X obj r of
             Inl e \<Rightarrow> Inl e
           | Inr right \<Rightarrow> evaluate_binop_math X operation left right))"
| "filter_rule J X obj (UnaryOperationRule operation r) =
     (case filter_rule J X obj r of
        Inl e \<Rightarrow> Inl e
      | Inr right \<Rightarrow> evaluate_unop X operation right)"

section \<open>A concrete environment\<close>

text \<open>
  Stand-ins for the external capabilities, used where a statement is evaluated on a
  concrete input: dotted-quad IPv4 addresses with an optional prefix length, the IPv6
  loopback address, epoch seconds read as UTC, and integer addition, subtraction and
  multiplication. A second environment adds the division of 1 by 2, which yields the
  double 0.5 as Python's \<^verbatim>\<open>/\<close> does.
\<close>

definition demo_octet :: "string \<Rightarrow> int option" where
  "demo_octet s = (if s \<noteq> [] \<and> length s \<le> 3 \<and> list_all is_digit s \<and> decimal s \<le> 255
                   then Some (decimal s) else None)"

definition demo_addr4 :: "string \<Rightarrow> int option" where
  "demo_addr4 s = (let os = map demo_octet (split_on CHR ''.'' s) in
     if length os = 4 \<and> list_all (\<lambda>x. x \<noteq> None) os
     then Some (foldl (\<lambda>acc x. acc * 256 + the x) 0 os) else None)"

definition demo_net4 :: "int \<Rightarrow> string \<Rightarrow> error + iprange" where
  "demo_net4 n l =
     (if l \<noteq> [] \<and> list_all is_digit l \<and> decimal l \<le> 32
      then (let size = 2 ^ nat (32 - decimal l); low = n - n mod size
            in Inr (IP4 low (low + size - 1)))
      else Inl (ValueError ''does not appear as IPv4 address''))"

definition demo_from_str_v4 :: "pyval \<Rightarrow> error + iprange" where
  "demo_from_str_v4 v = (case v of
       VStr s \<Rightarrow>
         (let parts = split_on CHR ''/'' s in
          case demo_addr4 (hd parts) of
            None \<Rightarrow> Inl (ValueError ''does not appear as IPv4 address'')
          | Some n \<Rightarrow>
              if length parts = 1 then Inr (IP4 n n)
              else if length parts = 2 then demo_net4 n (parts ! 1)
              else Inl (ValueError ''does not appear as IPv4 address''))
     | _ \<Rightarrow> Inl (ValueError ''does not appear as IPv4 address''))"

definition demo_from_str_v6 :: "pyval \<Rightarrow> error + iprange" where
  "demo_from_str_v6 v = (if v = VStr ''::1'' then Inr (IP6 1 1)
                         else Inl (ValueError ''does not appear as IPv6 address''))"

definition demo_fromtimestamp :: "pyval \<Rightarrow> error + datetime" where
  "demo_fromtimestamp v = (case v of
       VInt n \<Rightarrow>
         if 0 \<le> n \<and> n < 253402300800
         then Inr (Datetime (719163 + n div 86400) (n mod 86400) 0)
         else Inl (ValueError ''year is out of range'')
     | _ \<Rightarrow> Inl (OtherError ''not supported''))"

definition demo_math :: "string \<Rightarrow> pyval \<Rightarrow> pyval \<Rightarrow> error + pyval" where
  "demo_math operation a b = (case (a, b) of
       (VInt x, VInt y) \<Rightarrow>
         if operation = ''OP_PLUS'' then Inr (VInt (x + y))
         else if operation = ''OP_MINUS'' then Inr (VInt (x - y))
         else if operation = ''OP_TIMES'' then Inr (VInt (x * y))
         else Inl (OtherError ''not supported'')
     | (VFloat w, VInt y) \<Rightarrow>
         if operation = ''OP_TIMES'' \<and> y = 1 then Inr (VFloat w)
         else Inl (OtherError ''not supported'')
     | _ \<Rightarrow> Inl (OtherError ''not supported''))"

definition demo_ext :: ext where
  "demo_ext = \<lparr>
     from_str_v4 = demo_from_str_v4,
     from_str_v6 = demo_from_str_v6,
     fromtimestamp_float = demo_fromtimestamp,
     evaluate_binop_math = demo_math,
     evaluate_binop_logical = (\<lambda>operation a b. Inl (OtherError ''not supported'')),
     evaluate_binop_comparison = (\<lambda>operation a b. Inl (OtherError ''not supported'')),
     evaluate_unop = (\<lambda>operation a. Inl (OtherError ''not supported'')),
     int_ext = (\<lambda>v. Inl (TypeError ''int() argument'')),
     str_ext = (\<lambda>v. ''<object>'') \<rparr>"

definition truediv_ext :: ext where
  "truediv_ext = demo_ext \<lparr> evaluate_binop_math := (\<lambda>operation a b.
     if operation = ''OP_DIVIDE'' \<and> a = VInt 1 \<and> b = VInt 2
     then Inr (VFloat 0x3FE0000000000000) else demo_math operation a b) \<rparr>"

section \<open>Evaluation rules\<close>

lemmas string_eval = is_digit_def digit_val_def is_space_def strip_def digitpart_def decimal_def
  int_of_digits_def py_int_str_def lower_def drop_sign_def number_def exponent_def
  is_float_literal_def

lemmas timestamp_eval = take_digits_def expect_def match_fraction_def match_zone_def
  TIMESTAMP_RE_match_def zone_minutes_def us_str_def timestamp_of_string_def
  is_leap_def days_in_month_def days_before_year_def days_before_month_def ymd2ord_def
  datetime_new_def datetime_minus_minutes_def eval_nat_numeral

lemmas callback_defs = IDEAFilterCompiler_ipv4_def IDEAFilterCompiler_ipv6_def
  IDEAFilterCompiler_datetime_def IDEAFilterCompiler_integer_def
  IDEAFilterCompiler_constant_def IDEAFilterCompiler_variable_def IDEAFilterCompiler_list_def
  IDEAFilterCompiler_binary_operation_logical_def IDEAFilterCompiler_unary_operation_def

lemmas filter_defs = DataObjectFilter_ipv4_def DataObjectFilter_ipv6_def
  DataObjectFilter_datetime_def DataObjectFilter_integer_def DataObjectFilter_constant_def

lemmas demo_eval = demo_ext_def demo_from_str_v4_def demo_from_str_v6_def demo_addr4_def
  demo_octet_def demo_net4_def demo_fromtimestamp_def demo_math_def

section \<open>Comparison with the variable on the right\<close>

text \<open>
  Claim C1 says that a comparison with exactly one variable operand, whose canonical path
  is in the coercion table, is rebuilt with the variable where it stood and the value
  operand replaced by its coerced form, also when the variable is the right operand.
  Line 367 and line 369 assign the coerced value to \<^verbatim>\<open>right\<close> whichever side the
  value came from. With a constant on the left and \<^verbatim>\<open>Source.IP4\<close> on the right the
  result keeps the raw constant on the left and has the coerced constant on the right:
  the variable is gone.
\<close>

theorem comparison_variable_on_right:
  "compile X (ComparisonBinOpRule operation (ConstantRule v) (VariableRule ''Source.IP4'')) =
     (case compile_ip_v4 X (ConstantRule v) of
        Inl e \<Rightarrow> Inl e
      | Inr c \<Rightarrow> Inr (ComparisonBinOpRule operation (ConstantRule v) c))"
  by (simp add: compile_def callback_defs IDEAFilterCompiler_binary_operation_comparison_def
      var_and_val_def COMPILATIONS_IDEA_OBJECT_def is_digit_def ebind_def split: sum.splits)

theorem comparison_variable_on_right_witness:
  "compile demo_ext (ComparisonBinOpRule ''OP_EQ'' (ConstantRule (VStr ''192.0.2.1''))
       (VariableRule ''Source.IP4'')) =
     Inr (ComparisonBinOpRule ''OP_EQ'' (ConstantRule (VStr ''192.0.2.1''))
       (IPV4Rule (VRange (IP4 3221225985 3221225985))))"
  using comparison_variable_on_right [of demo_ext "''OP_EQ''" "VStr ''192.0.2.1''"]
  by (simp add: compile_ip_v4_def ebind_def demo_eval string_eval)

section \<open>IPv6 literals\<close>

text \<open>
  Claim C2 says that an IPv6 literal node holding a raw string is parsed with the IPv6
  parser and becomes an IPv6 range literal. The callback \<^verbatim>\<open>ipv6\<close> (line 306) calls
  \<^verbatim>\<open>compile_ip_v4\<close>: the string goes to the IPv4 parser, and a success is wrapped in
  an IPv4 literal node. A value that is a parsed range already does pass through.
\<close>

theorem ipv6_literal_goes_to_ipv4_parser:
  "compile X (IPV6Rule (VStr s)) =
     (case from_str_v4 X (VStr s) of Inl e \<Rightarrow> Inl e | Inr g \<Rightarrow> Inr (IPV4Rule (VRange g)))
   \<and> compile X (IPV6Rule (VRange g)) = Inr (IPV6Rule (VRange g))"
  by (simp add: compile_def callback_defs compile_ip_v4_def ebind_def split: sum.splits)

theorem ipv6_literal_goes_to_ipv4_parser_witness:
  "compile demo_ext (IPV6Rule (VStr ''::1'')) = Inl (ValueError ''does not appear as IPv4 address'')
   \<and> compile_ip_v6 demo_ext (IPV6Rule (VStr ''::1'')) = Inr (IPV6Rule (VRange (IP6 1 1)))"
  using ipv6_literal_goes_to_ipv4_parser [of demo_ext "''::1''"]
  by (simp add: compile_ip_v6_def ebind_def demo_eval string_eval)

section \<open>Time zone offsets\<close>

text \<open>
  Claim C3 says that an RFC 3339 timestamp with an offset is normalised by subtracting
  the signed offset, the sign applying to the hours and to the minutes. Line 217 reads
  the sign with the hours only (\<^verbatim>\<open>int("-02")\<close> is -2, \<^verbatim>\<open>int("30")\<close> is 30), so
  line 218 makes the offset \<^verbatim>\<open>-02:30\<close> into -90 minutes, not -150: ten o'clock at
  \<^verbatim>\<open>-02:30\<close> becomes 11:30 and not 12:30. The example of the claim, ten o'clock
  at \<^verbatim>\<open>+02:00\<close>, does become 08:00.
\<close>

theorem negative_offset_with_minutes:
  "compile_datetime X (DatetimeRule (VStr ''2023-05-01T10:00:00-02:30'')) =
     map_sum id (\<lambda>d. DatetimeRule (VDatetime d)) (datetime_new 2023 5 1 11 30 0 0)
   \<and> datetime_new 2023 5 1 11 30 0 0 \<noteq> datetime_new 2023 5 1 12 30 0 0
   \<and> compile_datetime X (DatetimeRule (VStr ''2023-05-01T10:00:00+02:00'')) =
     map_sum id (\<lambda>d. DatetimeRule (VDatetime d)) (datetime_new 2023 5 1 8 0 0 0)"
  by (simp add: compile_datetime_def ebind_def string_eval timestamp_eval)

theorem negative_offset_with_minutes_witness:
  "compile_datetime demo_ext (DatetimeRule (VStr ''2023-05-01T10:00:00-02:30'')) =
     Inr (DatetimeRule (VDatetime (Datetime 738641 41400 0)))"
  using negative_offset_with_minutes [of demo_ext]
  by (simp add: timestamp_eval)

section \<open>Malformed literals\<close>

text \<open>
  Claim C9: coercing a malformed literal is an error, never a silent pass-through. When
  the IPv4 parser rejects a string, compiling a comparison of \<^verbatim>\<open>Source.IP4\<close> with
  that string raises the parser's error, on whichever side the string stands. When a
  value is no datetime, the numeric attempt raises \<^verbatim>\<open>TypeError\<close> or
  \<^verbatim>\<open>ValueError\<close> and the pattern does not match its string, \<^verbatim>\<open>compile_datetime\<close>
  raises \<^verbatim>\<open>ValueError("Wrong Timestamp")\<close>.
\<close>

theorem malformed_literal_is_an_error:
  "(from_str_v4 X (VStr s) = Inl e \<longrightarrow>
      compile X (ComparisonBinOpRule operation (VariableRule ''Source.IP4'')
        (ConstantRule (VStr s))) = Inl e
      \<and> compile X (ComparisonBinOpRule operation (ConstantRule (VStr s))
        (VariableRule ''Source.IP4'')) = Inl e)
   \<and> (value_attr rule = Inr v \<and> \<not> is_datetime v \<and> try_numeric X v = Inl e' \<and> caught e'
        \<and> TIMESTAMP_RE_match (py_str X v) = None \<longrightarrow>
      compile_datetime X rule = Inl (ValueError ''Wrong Timestamp''))"
  by (simp add: compile_def callback_defs IDEAFilterCompiler_binary_operation_comparison_def
      var_and_val_def COMPILATIONS_IDEA_OBJECT_def is_digit_def ebind_def compile_ip_v4_def
      compile_datetime_def timestamp_of_string_def)

theorem malformed_literal_is_an_error_witness:
  "compile demo_ext (ComparisonBinOpRule ''OP_EQ'' (VariableRule ''Source.IP4'')
        (ConstantRule (VStr ''not.an.ip''))) = Inl (ValueError ''does not appear as IPv4 address'')
   \<and> compile demo_ext (ComparisonBinOpRule ''OP_EQ'' (ConstantRule (VStr ''not.an.ip''))
        (VariableRule ''Source.IP4'')) = Inl (ValueError ''does not appear as IPv4 address'')
   \<and> compile_datetime demo_ext (ConstantRule (VStr ''yesterday'')) = Inl (ValueError ''Wrong Timestamp'')"
  using malformed_literal_is_an_error [of demo_ext "''not.an.ip''"
      "ValueError ''does not appear as IPv4 address''" "''OP_EQ''"
      "ConstantRule (VStr ''yesterday'')" "VStr ''yesterday''"
      "ValueError ''could not convert string to float''"]
  by (simp add: demo_eval string_eval timestamp_eval)

section \<open>Constant folding\<close>

text \<open>
  Claim C5: a \<^verbatim>\<open>MathBinOp\<close> of two integer literals compiles to the integer literal
  of the external arithmetic's result, or to the list literal of integer literals when
  that result is a list; when the compiled operands are number literals but not both
  integer literals the same folding yields float literals; when they are not both number
  literals the node is rebuilt from the compiled operands.
\<close>

theorem math_constant_folding:
  "compile X (MathBinOpRule operation (IntegerRule (VInt a)) (IntegerRule (VInt b))) =
     (case evaluate_binop_math X operation (VInt a) (VInt b) of
        Inl e \<Rightarrow> Inl e
      | Inr result \<Rightarrow>
          Inr (case result of VList rs \<Rightarrow> ListRule (map IntegerRule rs) | _ \<Rightarrow> IntegerRule result))
   \<and> (compile X l = Inr left \<and> compile X r = Inr right
        \<and> is_NumberRule left \<and> is_NumberRule right
        \<and> \<not> (is_IntegerRule left \<and> is_IntegerRule right)
        \<and> value_attr left = Inr va \<and> value_attr right = Inr vb \<longrightarrow>
      compile X (MathBinOpRule operation l r) =
        (case evaluate_binop_math X operation va vb of
           Inl e \<Rightarrow> Inl e
         | Inr result \<Rightarrow>
             Inr (case result of VList rs \<Rightarrow> ListRule (map FloatRule rs) | _ \<Rightarrow> FloatRule result)))
   \<and> (compile X l = Inr left \<and> compile X r = Inr right
        \<and> \<not> (is_NumberRule left \<and> is_NumberRule right) \<longrightarrow>
      compile X (MathBinOpRule operation l r) = Inr (MathBinOpRule operation left right))"
proof -
  have int_case: "is_IntegerRule x \<Longrightarrow> is_NumberRule x" for x
    by (cases x) simp_all
  show ?thesis
    by (auto simp: compile_def callback_defs IDEAFilterCompiler_binary_operation_math_def
        fold_result_def ebind_def dest: int_case split: sum.splits)
qed

theorem math_constant_folding_witness:
  "compile demo_ext (MathBinOpRule ''OP_PLUS'' (IntegerRule (VInt 2)) (IntegerRule (VInt 3))) =
     Inr (IntegerRule (VInt 5))
   \<and> compile demo_ext (MathBinOpRule ''OP_TIMES'' (FloatRule (VFloat 0x3FF8000000000000))
        (IntegerRule (VStr ''1''))) = Inr (FloatRule (VFloat 0x3FF8000000000000))
   \<and> compile demo_ext (MathBinOpRule ''OP_PLUS'' (VariableRule ''ConnCount'')
        (IntegerRule (VStr ''1''))) =
      Inr (MathBinOpRule ''OP_PLUS'' (VariableRule ''ConnCount'') (IntegerRule (VInt 1)))"
proof -
  have l1: "compile demo_ext (FloatRule (VFloat 0x3FF8000000000000)) = Inr (FloatRule (VFloat 0x3FF8000000000000))"
    by (simp add: compile_def callback_defs)
  have r1: "compile demo_ext (IntegerRule (VStr ''1'')) = Inr (IntegerRule (VInt 1))"
    by (simp add: compile_def callback_defs ebind_def string_eval)
  have l2: "compile demo_ext (VariableRule ''ConnCount'') = Inr (VariableRule ''ConnCount'')"
    by (simp add: compile_def callback_defs)
  have a: "compile demo_ext (MathBinOpRule ''OP_PLUS'' (IntegerRule (VInt 2)) (IntegerRule (VInt 3))) =
     Inr (IntegerRule (VInt 5))"
    using math_constant_folding [of demo_ext "''OP_PLUS''" 2 3]
    by (simp add: demo_eval)
  have b: "compile demo_ext (MathBinOpRule ''OP_TIMES'' (FloatRule (VFloat 0x3FF8000000000000))
        (IntegerRule (VStr ''1''))) = Inr (FloatRule (VFloat 0x3FF8000000000000))"
    using math_constant_folding [of demo_ext "''OP_TIMES''" 0 0 "FloatRule (VFloat 0x3FF8000000000000)"
        "FloatRule (VFloat 0x3FF8000000000000)" "IntegerRule (VStr ''1'')" "IntegerRule (VInt 1)"
        "VFloat 0x3FF8000000000000" "VInt 1"] l1 r1
    by (simp add: demo_eval)
  have c: "compile demo_ext (MathBinOpRule ''OP_PLUS'' (VariableRule ''ConnCount'')
        (IntegerRule (VStr ''1''))) =
      Inr (MathBinOpRule ''OP_PLUS'' (VariableRule ''ConnCount'') (IntegerRule (VInt 1)))"
    using math_constant_folding [of demo_ext "''OP_PLUS''" 0 0 "VariableRule ''ConnCount''"
        "VariableRule ''ConnCount''" "IntegerRule (VStr ''1'')" "IntegerRule (VInt 1)"] l2 r1
    by simp
  from a b c show ?thesis by simp
qed

section \<open>Path canonicalisation\<close>

lemma takeWhile_before_stop: "\<not> P y \<Longrightarrow> takeWhile P (xs @ y # ys) = takeWhile P xs"
  by (induction xs) simp_all

lemma dropWhile_before_stop: "\<not> P y \<Longrightarrow> dropWhile P (xs @ y # ys) = dropWhile P xs @ y # ys"
  by (induction xs) simp_all

lemma takeWhile_all: "list_all P xs \<Longrightarrow> \<not> P y \<Longrightarrow> takeWhile P (xs @ y # ys) = xs"
  by (induction xs) simp_all

lemma dropWhile_all: "list_all P xs \<Longrightarrow> \<not> P y \<Longrightarrow> dropWhile P (xs @ y # ys) = y # ys"
  by (induction xs) simp_all

lemma head_before_stop:
  "y \<noteq> e \<Longrightarrow> (case xs @ y # ys of [] \<Rightarrow> False | d # r \<Rightarrow> d = e) =
     (case xs of [] \<Rightarrow> False | d # r \<Rightarrow> d = e)"
  by (cases xs) simp_all

lemma bracket_not_digit: "\<not> is_digit CHR ''[''" "\<not> is_digit CHR '']''"
  by (simp_all add: is_digit_def)

lemma clean_variable_index_first:
  assumes "ds \<noteq> []" and "list_all is_digit ds"
  shows "clean_variable (CHR ''['' # ds @ CHR '']'' # b) = clean_variable b"
proof -
  have tw: "takeWhile is_digit (ds @ CHR '']'' # b) = ds"
    using assms(2) bracket_not_digit(2) by (rule takeWhile_all)
  have dw: "dropWhile is_digit (ds @ CHR '']'' # b) = CHR '']'' # b"
    using assms(2) bracket_not_digit(2) by (rule dropWhile_all)
  show ?thesis
    using assms(1) by (simp add: tw dw)
qed

lemma clean_variable_index:
  assumes "ds \<noteq> []" and "list_all is_digit ds"
  shows "clean_variable (a @ CHR ''['' # ds @ CHR '']'' # b) = clean_variable a @ clean_variable b"
proof (induction a rule: clean_variable.induct)
  case 1
  show ?case using clean_variable_index_first [OF assms, of b]
    by (simp del: clean_variable.simps(2))
next
  case (2 c cs)
  let ?seg = "CHR ''['' # ds @ CHR '']'' # b"
  let ?cond = "c = CHR ''['' \<and> takeWhile is_digit cs \<noteq> [] \<and>
         (case dropWhile is_digit cs of [] \<Rightarrow> False | d # r \<Rightarrow> d = CHR '']'')"
  have tw: "takeWhile is_digit (cs @ ?seg) = takeWhile is_digit cs"
    by (rule takeWhile_before_stop) (rule bracket_not_digit)
  have dw: "dropWhile is_digit (cs @ ?seg) = dropWhile is_digit cs @ ?seg"
    by (rule dropWhile_before_stop) (rule bracket_not_digit)
  have stop: "(case dropWhile is_digit cs @ ?seg of [] \<Rightarrow> False | d # r \<Rightarrow> d = CHR '']'') =
      (case dropWhile is_digit cs of [] \<Rightarrow> False | d # r \<Rightarrow> d = CHR '']'')"
    by (rule head_before_stop) simp
  have whole: "clean_variable ((c # cs) @ ?seg) =
      (if ?cond then clean_variable (tl (dropWhile is_digit cs @ ?seg))
       else c # clean_variable (cs @ ?seg))"
    by (simp only: append_Cons clean_variable.simps(2) tw dw stop)
  have part: "clean_variable (c # cs) =
      (if ?cond then clean_variable (tl (dropWhile is_digit cs)) else c # clean_variable cs)"
    by (rule clean_variable.simps(2))
  show ?case
  proof (cases ?cond)
    case True
    have ne: "dropWhile is_digit cs \<noteq> []"
    proof
      assume e: "dropWhile is_digit cs = []"
      from True have "case dropWhile is_digit cs of [] \<Rightarrow> False | d # r \<Rightarrow> d = CHR '']''"
        by blast
      then show False
        by (simp only: e list.case)
    qed
    then have tl: "tl (dropWhile is_digit cs @ ?seg) = tl (dropWhile is_digit cs) @ ?seg"
      by (rule tl_append2)
    from "2.IH"(1) True
    have ih: "clean_variable (tl (dropWhile is_digit cs) @ ?seg) =
        clean_variable (tl (dropWhile is_digit cs)) @ clean_variable b"
      by blast
    have w: "clean_variable ((c # cs) @ ?seg) = clean_variable (tl (dropWhile is_digit cs @ ?seg))"
      by (rule trans [OF whole if_P [OF True]])
    have p: "clean_variable (c # cs) = clean_variable (tl (dropWhile is_digit cs))"
      by (rule trans [OF part if_P [OF True]])
    show ?thesis
      by (simp only: w p tl ih)
  next
    case False
    with "2.IH"(2)
    have ih: "clean_variable (cs @ ?seg) = clean_variable cs @ clean_variable b"
      by blast
    have w: "clean_variable ((c # cs) @ ?seg) = c # clean_variable (cs @ ?seg)"
      by (rule trans [OF whole if_not_P [OF False]])
    have p: "clean_variable (c # cs) = c # clean_variable cs"
      by (rule trans [OF part if_not_P [OF False]])
    show ?thesis
      unfolding w p ih by simp
  qed
qed

text \<open>
  Claim C8: \<^verbatim>\<open>clean_variable\<close> removes every bracketed numeric index from a path (an
  index segment anywhere in a path disappears, and what stands before and after it is
  cleaned as it would be alone), so \<^verbatim>\<open>Source.IP4[2]\<close> becomes \<^verbatim>\<open>Source.IP4\<close>; and
  a comparison whose variable path cleans to \<^verbatim>\<open>Source.IP4\<close> coerces its value operand
  with \<^verbatim>\<open>compile_ip_v4\<close>, items of a list one by one into an \<^verbatim>\<open>IPListRule\<close>, for
  the indexed path exactly as for the bare one.
\<close>

theorem path_canonicalization:
  "(ds \<noteq> [] \<and> list_all is_digit ds \<longrightarrow>
      clean_variable (a @ ''['' @ ds @ '']'' @ b) = clean_variable a @ clean_variable b)
   \<and> clean_variable ''Source.IP4[2]'' = ''Source.IP4''
   \<and> clean_variable ''Source.IP4'' = ''Source.IP4''
   \<and> (clean_variable p = ''Source.IP4'' \<longrightarrow>
       compile X (ComparisonBinOpRule operation (VariableRule p) r) =
         ebind (compile X r) (\<lambda>val.
           if is_VariableRule val then Inr (ComparisonBinOpRule operation (VariableRule p) val)
           else if is_ListRule val then
             ebind (map_err (compile_ip_v4 X) (list_items val)) (\<lambda>result.
               Inr (ComparisonBinOpRule operation (VariableRule p) (IPListRule result)))
           else
             ebind (compile_ip_v4 X val) (\<lambda>c.
               Inr (ComparisonBinOpRule operation (VariableRule p) c))))"
proof -
  have A: "ds \<noteq> [] \<and> list_all is_digit ds \<longrightarrow>
      clean_variable (a @ ''['' @ ds @ '']'' @ b) = clean_variable a @ clean_variable b"
    using clean_variable_index [of ds a b] by simp
  have B: "clean_variable ''Source.IP4[2]'' = ''Source.IP4''"
    by (simp add: is_digit_def)
  have C: "clean_variable ''Source.IP4'' = ''Source.IP4''"
    by (simp add: is_digit_def)
  have D: "clean_variable p = ''Source.IP4'' \<longrightarrow>
       compile X (ComparisonBinOpRule operation (VariableRule p) r) =
         ebind (compile X r) (\<lambda>val.
           if is_VariableRule val then Inr (ComparisonBinOpRule operation (VariableRule p) val)
           else if is_ListRule val then
             ebind (map_err (compile_ip_v4 X) (list_items val)) (\<lambda>result.
               Inr (ComparisonBinOpRule operation (VariableRule p) (IPListRule result)))
           else
             ebind (compile_ip_v4 X val) (\<lambda>c.
               Inr (ComparisonBinOpRule operation (VariableRule p) c)))"
    by (auto simp: compile_def callback_defs IDEAFilterCompiler_binary_operation_comparison_def
        var_and_val_def COMPILATIONS_IDEA_OBJECT_def ebind_def split: sum.splits)
  from A B C D show ?thesis by blast
qed

theorem path_canonicalization_witness:
  "clean_variable ''Node[1].SW[22]'' = ''Node.SW''
   \<and> compile demo_ext (ComparisonBinOpRule ''OP_EQ'' (VariableRule ''Source.IP4[2]'')
        (ConstantRule (VStr ''192.0.2.0/24''))) =
      Inr (ComparisonBinOpRule ''OP_EQ'' (VariableRule ''Source.IP4[2]'')
        (IPV4Rule (VRange (IP4 3221225984 3221226239))))
   \<and> compile demo_ext (ComparisonBinOpRule ''OP_EQ'' (VariableRule ''Source.IP4'')
        (ConstantRule (VStr ''192.0.2.0/24''))) =
      Inr (ComparisonBinOpRule ''OP_EQ'' (VariableRule ''Source.IP4'')
        (IPV4Rule (VRange (IP4 3221225984 3221226239))))"
proof -
  have v: "compile demo_ext (ConstantRule (VStr ''192.0.2.0/24'')) = Inr (ConstantRule (VStr ''192.0.2.0/24''))"
    by (simp add: compile_def callback_defs)
  have g: "compile_ip_v4 demo_ext (ConstantRule (VStr ''192.0.2.0/24'')) =
      Inr (IPV4Rule (VRange (IP4 3221225984 3221226239)))"
    by (simp add: compile_ip_v4_def ebind_def demo_eval string_eval)
  have a: "clean_variable ''Node[1].SW[22]'' = ''Node.SW''"
    using path_canonicalization [of "''22''" "''Node[1].SW''" "[]"]
    by (simp add: is_digit_def)
  have b: "compile demo_ext (ComparisonBinOpRule ''OP_EQ'' (VariableRule ''Source.IP4[2]'')
        (ConstantRule (VStr ''192.0.2.0/24''))) =
      Inr (ComparisonBinOpRule ''OP_EQ'' (VariableRule ''Source.IP4[2]'')
        (IPV4Rule (VRange (IP4 3221225984 3221226239))))"
    using path_canonicalization [of "''2''" "''Source.IP4''" "[]" "''Source.IP4[2]''" demo_ext
        "''OP_EQ''" "ConstantRule (VStr ''192.0.2.0/24'')"]
    by (simp add: v g ebind_def)
  have c: "compile demo_ext (ComparisonBinOpRule ''OP_EQ'' (VariableRule ''Source.IP4'')
        (ConstantRule (VStr ''192.0.2.0/24''))) =
      Inr (ComparisonBinOpRule ''OP_EQ'' (VariableRule ''Source.IP4'')
        (IPV4Rule (VRange (IP4 3221225984 3221226239))))"
    using path_canonicalization [of "''2''" "''Source.IP4''" "[]" "''Source.IP4''" demo_ext
        "''OP_EQ''" "ConstantRule (VStr ''192.0.2.0/24'')"]
    by (simp add: v g ebind_def)
  from a b c show ?thesis by simp
qed

section \<open>Evaluating an IP list literal\<close>

lemma coerced_ip_value:
  assumes "apply_comp_i X ci r = Inr r'" and "ci = Comp_ip_v4 \<or> ci = Comp_ip_v6"
  shows "\<exists>g. value_attr r' = Inr (VRange g)"
proof (cases "value_attr r")
  case (Inl e)
  with assms show ?thesis
    by (auto simp: compile_ip_v4_def compile_ip_v6_def ebind_def)
next
  case (Inr v)
  with assms show ?thesis
    by (cases v) (auto simp: compile_ip_v4_def compile_ip_v6_def ebind_def split: sum.splits)
qed

lemma coerced_ip_values:
  assumes "ci = Comp_ip_v4 \<or> ci = Comp_ip_v6"
  shows "map_err (apply_comp_i X ci) items = Inr result \<Longrightarrow>
     \<exists>gs. length gs = length items \<and> map value_attr result = map (\<lambda>g. Inr (VRange g)) gs"
proof (induction items arbitrary: result)
  case Nil
  then show ?case by simp
next
  case (Cons i items)
  from Cons.prems obtain r rs where r: "apply_comp_i X ci i = Inr r"
    and rs: "map_err (apply_comp_i X ci) items = Inr rs" and res: "result = r # rs"
    by (auto split: sum.splits)
  from coerced_ip_value [OF r assms] obtain g where g: "value_attr r = Inr (VRange g)" ..
  from Cons.IH [OF rs] obtain gs where gs: "length gs = length items"
    "map value_attr rs = map (\<lambda>g. Inr (VRange g)) gs" by blast
  from g gs res have "length (g # gs) = length (i # items) \<and>
      map value_attr result = map (\<lambda>g. Inr (VRange g)) (g # gs)"
    by simp
  then show ?case ..
qed

lemma range_items_filter:
  "map value_attr rs = map (\<lambda>g. Inr (VRange g)) gs \<Longrightarrow>
     map_err value_attr rs = Inr (map VRange gs)"
proof (induction rs arbitrary: gs)
  case Nil
  then show ?case by simp
next
  case (Cons r rs)
  then obtain g gs' where gs: "gs = g # gs'" and g: "value_attr r = Inr (VRange g)"
    and rest: "map value_attr rs = map (\<lambda>g. Inr (VRange g)) gs'"
    by (cases gs) auto
  from Cons.IH [OF rest] g gs show ?case
    by simp
qed

text \<open>
  Claim C10: the compiler builds an IP list literal from the items it coerced with
  \<^verbatim>\<open>compile_ip_v4\<close> or \<^verbatim>\<open>compile_ip_v6\<close> (lines 363 to 367). Every such item
  holds a parsed range, and the evaluator maps the literal, for any record, to the
  \<^verbatim>\<open>ListIP\<close> of these ranges in order, one for each item, not to the rule nodes.
\<close>

theorem ip_list_literal_evaluates_to_ranges:
  "map_err (apply_comp_i X ci) items = Inr result \<and> (ci = Comp_ip_v4 \<or> ci = Comp_ip_v6) \<longrightarrow>
     (\<exists>gs. length gs = length items
        \<and> map value_attr result = map (\<lambda>g. Inr (VRange g)) gs
        \<and> filter_rule J Y obj (apply_comp_l Make_IPListRule result) = Inr (VListIP (map VRange gs)))"
proof
  assume a: "map_err (apply_comp_i X ci) items = Inr result \<and> (ci = Comp_ip_v4 \<or> ci = Comp_ip_v6)"
  then obtain gs where gs: "length gs = length items"
    "map value_attr result = map (\<lambda>g. Inr (VRange g)) gs"
    using coerced_ip_values [of ci X items result] by blast
  from range_items_filter [OF gs(2)]
  have "filter_rule J Y obj (apply_comp_l Make_IPListRule result) = Inr (VListIP (map VRange gs))"
    by (simp add: IPListRule_values_def ebind_def)
  with gs show "\<exists>gs. length gs = length items
        \<and> map value_attr result = map (\<lambda>g. Inr (VRange g)) gs
        \<and> filter_rule J Y obj (apply_comp_l Make_IPListRule result) = Inr (VListIP (map VRange gs))"
    by blast
qed

theorem ip_list_literal_evaluates_to_ranges_witness:
  "filter_rule (\<lambda>(obj :: unit) path. Inr VNone) demo_ext ()
     (IPListRule [IPV4Rule (VRange (IP4 3221225985 3221225985)), ConstantRule (VRange (IP4 1 2))]) =
   Inr (VListIP [VRange (IP4 3221225985 3221225985), VRange (IP4 1 2)])"
proof -
  let ?items = "[ConstantRule (VStr ''192.0.2.1''), ConstantRule (VRange (IP4 1 2))]"
  let ?result = "[IPV4Rule (VRange (IP4 3221225985 3221225985)), ConstantRule (VRange (IP4 1 2))]"
  have c: "map_err (apply_comp_i demo_ext Comp_ip_v4) ?items = Inr ?result"
    by (simp add: compile_ip_v4_def ebind_def demo_eval string_eval)
  from ip_list_literal_evaluates_to_ranges [of demo_ext Comp_ip_v4 ?items ?result
      "\<lambda>(obj :: unit) path. Inr VNone" demo_ext "()"] c
  obtain gs where gs: "map value_attr ?result = map (\<lambda>g. Inr (VRange g)) gs"
    and f: "filter_rule (\<lambda>(obj :: unit) path. Inr VNone) demo_ext ()
      (apply_comp_l Make_IPListRule ?result) = Inr (VListIP (map VRange gs))"
    by blast
  from gs have "gs = [IP4 3221225985 3221225985, IP4 1 2]"
    by (cases gs; cases "tl gs") auto
  with f show ?thesis by simp
qed

section \<open>What compilation does to the tree it is given\<close>

text \<open>
  Claim C4: \<^verbatim>\<open>compile\<close> never mutates a node of the input tree, and in particular
  never reassigns the value field of an integer literal. The integer callback does assign
  to that field (line 320) and returns the node it was given: whenever the conversion of
  the value succeeds, the integer literal that was passed in holds the converted value
  afterwards. The integer literal that holds the string \<^verbatim>\<open>"5"\<close> holds the integer 5
  after \<^verbatim>\<open>compile\<close>, on its own and as an operand of a logical operation, so the
  tree is not what it was before the call.
\<close>

theorem compile_reassigns_integer_value:
  "input_after_compile X (IntegerRule v) = map_sum id (\<lambda>n. IntegerRule (VInt n)) (py_int X v)
   \<and> input_after_compile X (IntegerRule (VStr ''5'')) = Inr (IntegerRule (VInt 5))
   \<and> input_after_compile X (LogicalBinOpRule operation (IntegerRule (VStr ''5'')) (VariableRule p)) =
       Inr (LogicalBinOpRule operation (IntegerRule (VInt 5)) (VariableRule p))
   \<and> IntegerRule (VInt 5) \<noteq> IntegerRule (VStr ''5'')"
proof -
  have a: "input_after_compile X (IntegerRule v) =
      map_sum id (\<lambda>n. IntegerRule (VInt n)) (py_int X v)"
    by (cases "py_int X v")
      (simp_all add: input_after_compile_def IDEAFilterCompiler_integer_def ebind_def)
  have five: "py_int_str ''5'' = Inr 5"
    by (simp add: string_eval)
  have b: "input_after_compile X (IntegerRule (VStr ''5'')) = Inr (IntegerRule (VInt 5))"
    by (simp add: input_after_compile_def IDEAFilterCompiler_integer_def ebind_def five)
  have c: "input_after_compile X
      (LogicalBinOpRule operation (IntegerRule (VStr ''5'')) (VariableRule p)) =
      Inr (LogicalBinOpRule operation (IntegerRule (VInt 5)) (VariableRule p))"
    by (simp add: input_after_compile_def callback_defs ebind_def five)
  from a b c show ?thesis by simp
qed

theorem compile_reassigns_integer_value_witness:
  "input_after_compile demo_ext (IntegerRule (VStr ''5'')) = Inr (IntegerRule (VInt 5))
   \<and> input_after_compile demo_ext (IntegerRule (VStr '' 0012 '')) = Inr (IntegerRule (VInt 12))
   \<and> input_after_compile demo_ext
       (LogicalBinOpRule ''OP_AND'' (IntegerRule (VStr ''5'')) (VariableRule ''ConnCount'')) =
       Inr (LogicalBinOpRule ''OP_AND'' (IntegerRule (VInt 5)) (VariableRule ''ConnCount''))"
  using compile_reassigns_integer_value [of demo_ext "VStr ''5''" "''OP_AND''" "''ConnCount''"]
    compile_reassigns_integer_value [of demo_ext "VStr '' 0012 ''" "''OP_AND''" "''ConnCount''"]
  by (simp add: string_eval)

section \<open>List literals\<close>

text \<open>
  Claim C6 says that a list literal is passed through while its items are compiled, an
  uncompiled IP, timestamp or integer item being coerced as it would be alone. The list
  callback returns the node it was given (line 339) and does nothing to the items: an
  IPv4 item that compiles to a range literal on its own is still the raw string inside
  the compiled list.
\<close>

theorem list_items_stay_uncompiled:
  "compile demo_ext (ListRule [IPV4Rule (VStr ''192.0.2.1'')]) =
     Inr (ListRule [IPV4Rule (VStr ''192.0.2.1'')])
   \<and> compile demo_ext (IPV4Rule (VStr ''192.0.2.1'')) =
     Inr (IPV4Rule (VRange (IP4 3221225985 3221225985)))"
  by (simp add: compile_def callback_defs compile_ip_v4_def ebind_def demo_eval string_eval)

text \<open>
  Claim C6 as amended: compiling a list literal returns the list unchanged and its items
  are not compiled, so an uncompiled IP, timestamp or integer item stays as it is. This
  holds for a list compiled on its own and for a list compared with a variable whose
  cleaned path is not in the coercion table.
\<close>

theorem list_literal_returned_unchanged:
  "compile X (ListRule items) = Inr (ListRule items)
   \<and> compile X (IPListRule items) = Inr (IPListRule items)
   \<and> (COMPILATIONS_IDEA_OBJECT (clean_variable p) = None \<longrightarrow>
        compile X (ComparisonBinOpRule operation (VariableRule p) (ListRule items)) =
          Inr (ComparisonBinOpRule operation (VariableRule p) (ListRule items)))"
  by (simp add: compile_def callback_defs IDEAFilterCompiler_binary_operation_comparison_def
      var_and_val_def)

theorem list_literal_returned_unchanged_witness:
  "compile demo_ext
     (ListRule [IPV4Rule (VStr ''192.0.2.1''), DatetimeRule (VStr ''2023-05-01T10:00:00Z''),
        IntegerRule (VStr ''5'')]) =
     Inr (ListRule [IPV4Rule (VStr ''192.0.2.1''), DatetimeRule (VStr ''2023-05-01T10:00:00Z''),
        IntegerRule (VStr ''5'')])
   \<and> compile demo_ext
       (ComparisonBinOpRule ''OP_IN'' (VariableRule ''ConnCount'')
          (ListRule [IntegerRule (VStr ''5'')])) =
     Inr (ComparisonBinOpRule ''OP_IN'' (VariableRule ''ConnCount'')
          (ListRule [IntegerRule (VStr ''5'')]))"
proof -
  have c: "clean_variable ''ConnCount'' = ''ConnCount''"
    by (simp add: string_eval)
  have n: "COMPILATIONS_IDEA_OBJECT ''ConnCount'' = None"
    by (simp add: COMPILATIONS_IDEA_OBJECT_def)
  from list_literal_returned_unchanged [of demo_ext
      "[IPV4Rule (VStr ''192.0.2.1''), DatetimeRule (VStr ''2023-05-01T10:00:00Z''),
        IntegerRule (VStr ''5'')]" "''ConnCount''" "''OP_IN''"]
    list_literal_returned_unchanged [of demo_ext "[IntegerRule (VStr ''5'')]" "''ConnCount''"
      "''OP_IN''"] c n
  show ?thesis by simp
qed

section \<open>Compiling a compiled tree\<close>

text \<open>
  Claim C7: compiling a compiled tree changes nothing, for every rule without malformed
  literals. Folding wraps whatever the external arithmetic returns for two integer
  literals in an integer literal (line 380), and the integer callback converts the value
  of every integer literal it meets (line 320). Whenever the arithmetic returns the float
  0.5 for the division of 1 by 2, as Python's division does, the first compilation of
  that division yields the integer literal holding 0.5, and compiling this result again
  yields the integer literal holding 0.
\<close>

theorem second_compile_truncates_folded_division:
  "evaluate_binop_math X ''OP_DIVIDE'' (VInt 1) (VInt 2) = Inr (VFloat 0x3FE0000000000000) \<longrightarrow>
     compile X (MathBinOpRule ''OP_DIVIDE'' (IntegerRule (VInt 1)) (IntegerRule (VInt 2))) =
       Inr (IntegerRule (VFloat 0x3FE0000000000000))
     \<and> compile X (IntegerRule (VFloat 0x3FE0000000000000)) = Inr (IntegerRule (VInt 0))
     \<and> IntegerRule (VInt 0) \<noteq> IntegerRule (VFloat 0x3FE0000000000000)"
  by (simp add: compile_def callback_defs IDEAFilterCompiler_binary_operation_math_def
      fold_result_def ebind_def py_int_float_def)

theorem second_compile_truncates_folded_division_witness:
  "compile truediv_ext (MathBinOpRule ''OP_DIVIDE'' (IntegerRule (VInt 1)) (IntegerRule (VInt 2))) =
     Inr (IntegerRule (VFloat 0x3FE0000000000000))
   \<and> compile truediv_ext (IntegerRule (VFloat 0x3FE0000000000000)) = Inr (IntegerRule (VInt 0))"
proof -
  have d: "evaluate_binop_math truediv_ext ''OP_DIVIDE'' (VInt 1) (VInt 2) =
      Inr (VFloat 0x3FE0000000000000)"
    by (simp add: truediv_ext_def)
  from second_compile_truncates_folded_division [of truediv_ext] d show ?thesis by simp
qed

end
